theory Spec2Isabelle
  imports Main "HOL-Library.Word" "HOL-Library.Sublist"
begin

section \<open>JavaScript strings\<close>

text \<open>
  A JavaScript string is a sequence of 16-bit code units. \<open>lit\<close> gives the code units of
  an ASCII literal of the source text. \<open>trim\<close> is \<^verbatim>\<open>String.prototype.trim\<close>: it removes
  the ECMAScript WhiteSpace and LineTerminator code points from both ends.
  \<open>startsWith s p\<close> is \<^verbatim>\<open>s.startsWith(p)\<close>.

  A string handed to the \<^verbatim>\<open>Blob\<close> constructor is first converted to a sequence of
  Unicode scalar values (\<open>scalar_values\<close>: a surrogate pair becomes one code point, an
  unpaired surrogate becomes U+FFFD) and then encoded as UTF-8 (\<open>utf8_encode\<close>).
\<close>

type_synonym jsstring = "16 word list"

definition lit :: "string \<Rightarrow> jsstring" where
  "lit s = map (\<lambda>c. of_nat (of_char c)) s"

definition isWhiteSpace :: "16 word \<Rightarrow> bool" where
  "isWhiteSpace c =
     (c \<in> set [0x0009, 0x000A, 0x000B, 0x000C, 0x000D, 0x0020, 0x00A0, 0x1680,
                0x2028, 0x2029, 0x202F, 0x205F, 0x3000, 0xFEFF]
      \<or> (0x2000 \<le> c \<and> c \<le> 0x200A))"

definition trim :: "jsstring \<Rightarrow> jsstring" where
  "trim s = rev (dropWhile isWhiteSpace (rev (dropWhile isWhiteSpace s)))"

definition startsWith :: "jsstring \<Rightarrow> jsstring \<Rightarrow> bool" where
  "startsWith s p = (take (length p) s = p)"

definition is_high :: "16 word \<Rightarrow> bool" where
  "is_high c = (0xD800 \<le> c \<and> c \<le> 0xDBFF)"

definition is_low :: "16 word \<Rightarrow> bool" where
  "is_low c = (0xDC00 \<le> c \<and> c \<le> 0xDFFF)"

definition scalar :: "16 word \<Rightarrow> nat" where
  "scalar c = (if is_high c \<or> is_low c then 0xFFFD else unat c)"

definition pair_value :: "16 word \<Rightarrow> 16 word \<Rightarrow> nat" where
  "pair_value c d = 0x10000 + (unat c - 0xD800) * 0x400 + (unat d - 0xDC00)"

fun scalar_values :: "jsstring \<Rightarrow> nat list" where
  "scalar_values [] = []"
| "scalar_values [c] = [scalar c]"
| "scalar_values (c # d # cs) =
     (if is_high c \<and> is_low d then pair_value c d # scalar_values cs
      else scalar c # scalar_values (d # cs))"

definition utf8_bytes :: "nat \<Rightarrow> nat list" where
  "utf8_bytes cp =
     (if cp < 0x80 then [cp]
      else if cp < 0x800 then [0xC0 + cp div 0x40, 0x80 + cp mod 0x40]
      else if cp < 0x10000
        then [0xE0 + cp div 0x1000, 0x80 + cp div 0x40 mod 0x40, 0x80 + cp mod 0x40]
      else [0xF0 + cp div 0x40000, 0x80 + cp div 0x1000 mod 0x40,
            0x80 + cp div 0x40 mod 0x40, 0x80 + cp mod 0x40])"

definition utf8_encode :: "nat list \<Rightarrow> 8 word list" where
  "utf8_encode cps = map of_nat (concat (map utf8_bytes cps))"

section \<open>The host: blobs, object URLs, the download anchor\<close>

text \<open>
  \<^verbatim>\<open>new Blob([text], { type: t })\<close> holds the bytes of its parts, each string part
  converted to scalar values and encoded as UTF-8, and the type tag. An object URL is a fresh handle (a counter)
  entered into the host's blob URL store, a map from handles to blobs;
  \<^verbatim>\<open>URL.revokeObjectURL\<close> removes it.
  \<open>current\<close> is \<^verbatim>\<open>downloadLinkRef.current\<close>: null or the anchor element. A call of
  \<^verbatim>\<open>click()\<close> is logged with what the anchor's \<open>href\<close> resolves to at that moment
  and the anchor's \<open>download\<close> attribute: this is the save action handed to the host.
  \<open>click_throws\<close> says whether the element's \<open>click\<close> raises instead of returning.

  \<open>attempts\<close> is a history variable: \<open>downloadSvg\<close> and \<open>handleDownload\<close> append the text
  they are entered with. Nothing in the program reads it.
\<close>

type_synonym url = nat

record blob =
  bytes :: "8 word list"
  blob_type :: jsstring

record anchor =
  href :: "url option"
  download :: jsstring
  click_throws :: bool

datatype completion = Normal | Throw

record host =
  current :: "anchor option"
  blobs :: "blob list"
  store :: "url \<rightharpoonup> blob"
  next_url :: url
  clicks :: "(blob option \<times> jsstring) list"
  attempts :: "jsstring list"

definition new_Blob :: "jsstring list \<Rightarrow> jsstring \<Rightarrow> host \<Rightarrow> blob \<times> host" where
  "new_Blob ps ty h =
     (let b = \<lparr>bytes = concat (map (\<lambda>p. utf8_encode (scalar_values p)) ps), blob_type = ty\<rparr>
      in (b, h\<lparr>blobs := blobs h @ [b]\<rparr>))"

definition createObjectURL :: "blob \<Rightarrow> host \<Rightarrow> url \<times> host" where
  "createObjectURL b h =
     (next_url h, h\<lparr>store := (store h)(next_url h \<mapsto> b), next_url := Suc (next_url h)\<rparr>)"

definition revokeObjectURL :: "url \<Rightarrow> host \<Rightarrow> host" where
  "revokeObjectURL u h = h\<lparr>store := (store h)(u := None)\<rparr>"

definition resolve :: "host \<Rightarrow> url option \<Rightarrow> blob option" where
  "resolve h r = (case r of None \<Rightarrow> None | Some u \<Rightarrow> store h u)"

definition click :: "anchor \<Rightarrow> host \<Rightarrow> completion \<times> host" where
  "click a h =
     (if click_throws a then Throw else Normal,
      h\<lparr>clicks := clicks h @ [(resolve h (href a), download a)]\<rparr>)"

definition enter :: "jsstring \<Rightarrow> host \<Rightarrow> host" where
  "enter t h = h\<lparr>attempts := attempts h @ [t]\<rparr>"

section \<open>The component state\<close>

text \<open>
  \<open>svgCode\<close> and \<open>error\<close> are the values of the last render, the ones the handlers'
  closures see. A state setter does not change them: it queues an update, and \<open>commit\<close>
  (the next render) applies the queue in order.
\<close>

record app =
  svgCode :: jsstring
  error :: jsstring
  host :: host

datatype update = SetSvgCode jsstring | SetError jsstring

record world = app +
  pending :: "update list"

definition setSvgCode :: "jsstring \<Rightarrow> world \<Rightarrow> world" where
  "setSvgCode v w = w\<lparr>pending := pending w @ [SetSvgCode v]\<rparr>"

definition setError :: "jsstring \<Rightarrow> world \<Rightarrow> world" where
  "setError m w = w\<lparr>pending := pending w @ [SetError m]\<rparr>"

fun apply_update :: "world \<Rightarrow> update \<Rightarrow> world" where
  "apply_update w (SetSvgCode v) = w\<lparr>svgCode := v\<rparr>"
| "apply_update w (SetError m) = w\<lparr>error := m\<rparr>"

definition commit :: "world \<Rightarrow> world" where
  "commit w = foldl apply_update (w\<lparr>pending := []\<rparr>) (pending w)"

definition default_icon :: jsstring where
  \<open>default_icon = lit (''<svg xmlns="http://www.w3.org/2000/svg" width="24" height="24" '' @
     ''viewBox="0 0 24 24" fill="none" stroke="currentColor" strokeWidth="2" '' @
     ''strokeLinecap="round" strokeLinejoin="round" '' @
     ''class="lucide lucide-arrow-down-circle"><circle cx="12" cy="12" r="10"/>'' @
     ''<path d="M12 8v8"/><path d="m8 12 4 4 4-4"/></svg>'')\<close>

definition mount :: "host \<Rightarrow> world" where
  "mount h = \<lparr>svgCode = default_icon, error = [], host = h, pending = []\<rparr>"

section \<open>src/src/App.jsx\<close>

text \<open>The test of line 22: \<^verbatim>\<open>!codeToDownload || !codeToDownload.trim().startsWith('<svg')\<close>.\<close>

definition rejects :: "jsstring \<Rightarrow> bool" where
  "rejects codeToDownload =
     (codeToDownload = [] \<or> \<not> startsWith (trim codeToDownload) (lit ''<svg''))"

definition invalid_message :: jsstring where
  "invalid_message = lit ''Please provide valid SVG code starting with <svg>.''"

definition downloadSvg :: "jsstring \<Rightarrow> world \<Rightarrow> completion \<times> world" where
  "downloadSvg codeToDownload w0 =
     (let w = w0\<lparr>host := enter codeToDownload (host w0)\<rparr> in
      if rejects codeToDownload then (Normal, setError invalid_message w)
      else
        let w1 = setError [] w;
            (blob, h2) = new_Blob [codeToDownload] (lit ''image/svg+xml'') (host w1);
            (url, h3) = createObjectURL blob h2
        in case current h3 of
             None \<Rightarrow> (Normal, w1\<lparr>host := revokeObjectURL url h3\<rparr>)
           | Some a \<Rightarrow>
               let a' = a\<lparr>href := Some url, download := lit ''icon.svg''\<rparr>;
                   h4 = h3\<lparr>current := Some a'\<rparr>;
                   (c, h5) = click a' h4
               in (case c of
                     Throw \<Rightarrow> (Throw, w1\<lparr>host := h5\<rparr>)
                   | Normal \<Rightarrow> (Normal, w1\<lparr>host := revokeObjectURL url h5\<rparr>)))"

definition handleCodeChange :: "jsstring \<Rightarrow> world \<Rightarrow> world" where
  "handleCodeChange v w = setSvgCode v (setError [] w)"

record paste_event =
  clipboardData :: jsstring
  defaultPrevented :: bool

definition handlePaste :: "paste_event \<Rightarrow> world \<Rightarrow> paste_event \<times> completion \<times> world" where
  "handlePaste e w =
     (let e' = e\<lparr>defaultPrevented := True\<rparr>;
          pastedText = clipboardData e';
          w1 = setSvgCode pastedText w;
          (c, w2) = downloadSvg pastedText w1
      in (e', c, w2))"

definition handleManualDownload :: "world \<Rightarrow> completion \<times> world" where
  "handleManualDownload w = downloadSvg (svgCode w) w"

text \<open>
  What the component renders: the textarea shows \<open>svgCode\<close>, the error line is there
  when \<open>error\<close> is a non-empty string, and the preview receives \<open>svgCode\<close> as its
  inner HTML.
\<close>

record view =
  textarea_value :: jsstring
  error_line :: "jsstring option"
  preview_html :: jsstring

definition render :: "'a app_scheme \<Rightarrow> view" where
  "render w = \<lparr>textarea_value = svgCode w,
               error_line = (if error w = [] then None else Some (error w)),
               preview_html = svgCode w\<rparr>"

text \<open>
  User events. A paste carries the clipboard text and the textarea's selection
  \<open>[a, b)\<close>. The host calls the paste handler; unless the handler prevented the default
  action, the host then replaces the selection by the clipboard text and reports the new
  value as a change. The queued updates are committed when a handler is done, also when
  it has thrown.
\<close>

datatype event = Change jsstring | Paste jsstring nat nat | Click

definition insertText :: "jsstring \<Rightarrow> nat \<Rightarrow> nat \<Rightarrow> jsstring \<Rightarrow> jsstring" where
  "insertText old a b t = take a old @ t @ drop b old"

fun dispatch :: "world \<Rightarrow> event \<Rightarrow> world" where
  "dispatch w (Change v) = commit (handleCodeChange v w)"
| "dispatch w (Paste t a b) =
     (case handlePaste \<lparr>clipboardData = t, defaultPrevented = False\<rparr> w of
        (e', c, w') \<Rightarrow>
          let w'' = commit w' in
          if defaultPrevented e' then w''
          else commit (handleCodeChange (insertText (svgCode w'') a b t) w''))"
| "dispatch w Click = commit (snd (handleManualDownload w))"

definition run :: "event list \<Rightarrow> world \<Rightarrow> world" where
  "run evs w = foldl dispatch w evs"

text \<open>An event is a failed export attempt when it calls the exporter with rejected text.\<close>

fun failed_export :: "world \<Rightarrow> event \<Rightarrow> bool" where
  "failed_export w (Change v) = False"
| "failed_export w (Paste t a b) = rejects t"
| "failed_export w Click = rejects (svgCode w)"

section \<open>src/unnamed/part\_000: the deferred variant\<close>

text \<open>
  This revision has a third state variable, the flag \<open>downloadOnPaste\<close>. Its paste
  handler only sets the flag and leaves the default action to the host. After a render the
  effect looks at the flag and, if it is set, schedules a callback; the callback and the
  \<open>handleDownload\<close> it calls read the \<open>svgCode\<close> of the render that scheduled them, so
  a scheduled callback is kept as that captured text. The test of line 41 is
  \<^verbatim>\<open>!svgCode.trim() || !svgCode.trim().startsWith('<svg')\<close>.
\<close>

datatype updateA = SetSvgCodeA jsstring | SetErrorA jsstring | SetDownloadOnPaste bool

record worldA = app +
  downloadOnPaste :: bool
  pendingA :: "updateA list"
  timers :: "jsstring list"

definition setSvgCodeA :: "jsstring \<Rightarrow> worldA \<Rightarrow> worldA" where
  "setSvgCodeA v w = w\<lparr>pendingA := pendingA w @ [SetSvgCodeA v]\<rparr>"

definition setErrorA :: "jsstring \<Rightarrow> worldA \<Rightarrow> worldA" where
  "setErrorA m w = w\<lparr>pendingA := pendingA w @ [SetErrorA m]\<rparr>"

definition setDownloadOnPaste :: "bool \<Rightarrow> worldA \<Rightarrow> worldA" where
  "setDownloadOnPaste f w = w\<lparr>pendingA := pendingA w @ [SetDownloadOnPaste f]\<rparr>"

fun apply_updateA :: "worldA \<Rightarrow> updateA \<Rightarrow> worldA" where
  "apply_updateA w (SetSvgCodeA v) = w\<lparr>svgCode := v\<rparr>"
| "apply_updateA w (SetErrorA m) = w\<lparr>error := m\<rparr>"
| "apply_updateA w (SetDownloadOnPaste f) = w\<lparr>downloadOnPaste := f\<rparr>"

definition commitA :: "worldA \<Rightarrow> worldA" where
  "commitA w = foldl apply_updateA (w\<lparr>pendingA := []\<rparr>) (pendingA w)"

definition handleCodeChangeA :: "jsstring \<Rightarrow> worldA \<Rightarrow> worldA" where
  "handleCodeChangeA v w = setSvgCodeA v (setErrorA [] w)"

definition handlePasteA :: "worldA \<Rightarrow> worldA" where
  "handlePasteA w = setDownloadOnPaste True w"

definition rejectsA :: "jsstring \<Rightarrow> bool" where
  "rejectsA svgCode_seen =
     (trim svgCode_seen = [] \<or> \<not> startsWith (trim svgCode_seen) (lit ''<svg''))"

definition handleDownload :: "jsstring \<Rightarrow> worldA \<Rightarrow> completion \<times> worldA" where
  "handleDownload svgCode_seen w0 =
     (let w = w0\<lparr>host := enter svgCode_seen (host w0)\<rparr> in
      if rejectsA svgCode_seen
      then (Normal, setErrorA (lit ''Please enter valid SVG code starting with <svg>.'') w)
      else
        let w1 = setErrorA [] w;
            (blob, h2) = new_Blob [svgCode_seen] (lit ''image/svg+xml'') (host w1);
            (url, h3) = createObjectURL blob h2
        in case current h3 of
             None \<Rightarrow> (Normal, w1\<lparr>host := revokeObjectURL url h3\<rparr>)
           | Some a \<Rightarrow>
               let a' = a\<lparr>href := Some url, download := lit ''icon.svg''\<rparr>;
                   h4 = h3\<lparr>current := Some a'\<rparr>;
                   (c, h5) = click a' h4
               in (case c of
                     Throw \<Rightarrow> (Throw, w1\<lparr>host := h5\<rparr>)
                   | Normal \<Rightarrow> (Normal, w1\<lparr>host := revokeObjectURL url h5\<rparr>)))"

definition timeout_callback :: "jsstring \<Rightarrow> worldA \<Rightarrow> completion \<times> worldA" where
  "timeout_callback svgCode_seen w =
     (let (c, w1) =
            (if startsWith (trim svgCode_seen) (lit ''<svg'')
             then handleDownload svgCode_seen w
             else (Normal, setErrorA (lit ''Pasted content is not valid SVG code.'') w))
      in case c of
           Throw \<Rightarrow> (Throw, w1)
         | Normal \<Rightarrow> (Normal, setDownloadOnPaste False w1))"

definition useEffectA :: "worldA \<Rightarrow> worldA" where
  "useEffectA w = (if downloadOnPaste w then w\<lparr>timers := timers w @ [svgCode w]\<rparr> else w)"

definition fire_timer :: "worldA \<Rightarrow> completion \<times> worldA" where
  "fire_timer w =
     (case timers w of
        [] \<Rightarrow> (Normal, w)
      | seen # rest \<Rightarrow> timeout_callback seen (w\<lparr>timers := rest\<rparr>))"

text \<open>
  The events of the deferred revision. After a handler the queued updates are committed;
  if the committed state differs from the one rendered before, the component renders
  again and the effect runs. The paste handler does not prevent the default action, so
  the host replaces the selection by the clipboard text and, if that changed the value,
  reports it as a change. \<open>Timeout\<close> is the oldest scheduled callback coming due.
\<close>

definition renderA :: "worldA \<Rightarrow> worldA" where
  "renderA w =
     (let w' = commitA w in
      if svgCode w' = svgCode w \<and> error w' = error w \<and> downloadOnPaste w' = downloadOnPaste w
      then w' else useEffectA w')"

datatype eventA = ChangeA jsstring | PasteA jsstring nat nat | ClickA | Timeout

fun dispatchA :: "worldA \<Rightarrow> eventA \<Rightarrow> worldA" where
  "dispatchA w (ChangeA v) = renderA (handleCodeChangeA v w)"
| "dispatchA w (PasteA t a b) =
     (let w1 = renderA (handlePasteA w);
          v = insertText (svgCode w1) a b t
      in if v = svgCode w1 then w1 else renderA (handleCodeChangeA v w1))"
| "dispatchA w ClickA = renderA (snd (handleDownload (svgCode w) w))"
| "dispatchA w Timeout = renderA (snd (fire_timer w))"

definition runA :: "eventA list \<Rightarrow> worldA \<Rightarrow> worldA" where
  "runA evs w = foldl dispatchA w evs"

definition mountA :: "host \<Rightarrow> worldA" where
  "mountA h = \<lparr>svgCode = default_icon, error = [], host = h,
              downloadOnPaste = False, pendingA = [], timers = []\<rparr>"

section \<open>Sample hosts\<close>

text \<open>
  A host in which nothing has happened yet, with a given content of the anchor ref, and
  the anchor element as the component renders it: no \<open>href\<close>, no \<open>download\<close>.
\<close>

definition fresh_anchor :: "bool \<Rightarrow> anchor" where
  "fresh_anchor raising = \<lparr>href = None, download = [], click_throws = raising\<rparr>"

definition fresh_host :: "anchor option \<Rightarrow> host" where
  "fresh_host r = \<lparr>current = r, blobs = [], store = Map.empty, next_url = 0,
                   clicks = [], attempts = []\<rparr>"

definition svg_blob :: "jsstring \<Rightarrow> blob" where
  "svg_blob t = \<lparr>bytes = utf8_encode (scalar_values t), blob_type = lit ''image/svg+xml''\<rparr>"

section \<open>Reading a file back as text\<close>








section \<open>The validator as the specification words it\<close>

definition isPlausibleSvg :: "jsstring \<Rightarrow> bool" where
  "isPlausibleSvg t = (trim t \<noteq> [] \<and> prefix (lit ''<svg'') (trim t))"

section \<open>Facts about the string functions\<close>

lemma startsWith_prefix: "startsWith s p = prefix p s"
  unfolding startsWith_def prefix_def
  by (metis append_eq_conv_conj)

lemma lit_svg: "lit ''<svg'' = [0x3C, 0x73, 0x76, 0x67]"
  by (simp add: lit_def)

lemma trim_Nil [simp]: "trim [] = []"
  by (simp add: trim_def)

lemma rejects_iff: "rejects t = (\<not> isPlausibleSvg t)"
proof (cases "t = []")
  case True
  then show ?thesis by (simp add: rejects_def isPlausibleSvg_def)
next
  case False
  have "prefix (lit ''<svg'') (trim t) \<Longrightarrow> trim t \<noteq> []"
    by (auto simp: lit_svg)
  with False show ?thesis
    by (auto simp: rejects_def isPlausibleSvg_def startsWith_prefix)
qed

section \<open>Facts about the encodings\<close>



lemma b4: "0x80 \<le> (cp::nat) \<Longrightarrow> 0x2 \<le> cp div 0x40"
  by (simp add: Suc_le_eq div_greater_zero_iff) 







lemma unat_high: "is_high c \<Longrightarrow> 0xD800 \<le> unat c \<and> unat c \<le> 0xDBFF"
  by (simp add: is_high_def word_le_nat_alt)

lemma unat_low: "is_low c \<Longrightarrow> 0xDC00 \<le> unat c \<and> unat c \<le> 0xDFFF"
  by (simp add: is_low_def word_le_nat_alt)








section \<open>Facts about commits and the exporter\<close>

lemma host_foldl_apply [simp]: "host (foldl apply_update w us) = host w"
proof (induction us arbitrary: w)
  case Nil
  show ?case by simp
next
  case (Cons u us)
  show ?case by (cases u) (simp_all add: Cons.IH)
qed

lemma svgCode_foldl_cong:
  "svgCode w = svgCode w' \<Longrightarrow> svgCode (foldl apply_update w us) = svgCode (foldl apply_update w' us)"
proof (induction us arbitrary: w w')
  case Nil
  then show ?case by simp
next
  case (Cons u us)
  show ?case
  proof (cases u)
    case (SetSvgCode v)
    then show ?thesis using Cons.IH [of "w\<lparr>svgCode := v\<rparr>" "w'\<lparr>svgCode := v\<rparr>"] by simp
  next
    case (SetError m)
    then show ?thesis using Cons.IH [of "w\<lparr>error := m\<rparr>" "w'\<lparr>error := m\<rparr>"] Cons.prems by simp
  qed
qed

lemma host_commit [simp]: "host (commit w) = host w"
  by (simp add: commit_def)

lemma pending_downloadSvg:
  "pending (snd (downloadSvg t w)) = pending w @ [SetError (if rejects t then invalid_message else [])]"
  by (simp add: downloadSvg_def Let_def setError_def new_Blob_def createObjectURL_def click_def
      split: option.splits completion.splits prod.splits)

lemma svgCode_downloadSvg: "svgCode (snd (downloadSvg t w)) = svgCode w"
  by (simp add: downloadSvg_def Let_def setError_def new_Blob_def createObjectURL_def click_def
      split: option.splits completion.splits prod.splits)

lemma error_downloadSvg: "error (snd (downloadSvg t w)) = error w"
  by (simp add: downloadSvg_def Let_def setError_def new_Blob_def createObjectURL_def click_def
      split: option.splits completion.splits prod.splits)

lemma attempts_downloadSvg: "attempts (host (snd (downloadSvg t w))) = attempts (host w) @ [t]"
  by (simp add: downloadSvg_def Let_def setError_def new_Blob_def createObjectURL_def click_def
      revokeObjectURL_def enter_def
      split: option.splits completion.splits prod.splits)


lemma svgCode_commit_downloadSvg: "svgCode (commit (snd (downloadSvg t w))) = svgCode (commit w)"
proof -
  have "svgCode (commit (snd (downloadSvg t w)))
      = svgCode (foldl apply_update ((snd (downloadSvg t w))\<lparr>pending := []\<rparr>) (pending w))"
    by (simp add: commit_def pending_downloadSvg)
  also have "\<dots> = svgCode (foldl apply_update (w\<lparr>pending := []\<rparr>) (pending w))"
    by (rule svgCode_foldl_cong) (simp add: svgCode_downloadSvg)
  finally show ?thesis by (simp add: commit_def)
qed

lemma error_commit_snoc: "pending w = q @ [SetError m] \<Longrightarrow> error (commit w) = m"
  by (simp add: commit_def)

lemma svgCode_commit_snoc: "pending w = q @ [SetSvgCode v] \<Longrightarrow> svgCode (commit w) = v"
  by (simp add: commit_def)

lemma error_commit_downloadSvg:
  "error (commit (snd (downloadSvg t w))) = (if rejects t then invalid_message else [])"
  by (rule error_commit_snoc [OF pending_downloadSvg])

lemmas exporter_defs = downloadSvg_def Let_def setError_def new_Blob_def createObjectURL_def
  click_def revokeObjectURL_def enter_def resolve_def

lemma error_dispatch: "error (dispatch w e) = (if failed_export w e then invalid_message else [])"
proof (cases e)
  case (Change v)
  then show ?thesis
    by (simp add: handleCodeChange_def setSvgCode_def setError_def commit_def)
next
  case (Paste t a b)
  then show ?thesis
    by (simp add: handlePaste_def Let_def case_prod_unfold error_commit_downloadSvg)
next
  case Click
  then show ?thesis
    by (simp add: handleManualDownload_def error_commit_downloadSvg)
qed

lemma run_snoc: "run (evs @ [e]) w = dispatch (run evs w) e"
  by (simp add: run_def)

lemma rejectsA_iff: "rejectsA t = rejects t"
  by (auto simp: rejectsA_def rejects_def startsWith_def lit_svg)

lemma host_foldl_applyA [simp]: "host (foldl apply_updateA w us) = host w"
proof (induction us arbitrary: w)
  case Nil
  show ?case by simp
next
  case (Cons u us)
  show ?case by (cases u) (simp_all add: Cons.IH)
qed

lemma host_commitA [simp]: "host (commitA w) = host w"
  by (simp add: commitA_def)

lemma pendingA_foldl [simp]: "pendingA (foldl apply_updateA w us) = pendingA w"
proof (induction us arbitrary: w)
  case Nil
  show ?case by simp
next
  case (Cons u us)
  show ?case by (cases u) (simp_all add: Cons.IH)
qed

lemma timers_foldl [simp]: "timers (foldl apply_updateA w us) = timers w"
proof (induction us arbitrary: w)
  case Nil
  show ?case by simp
next
  case (Cons u us)
  show ?case by (cases u) (simp_all add: Cons.IH)
qed

lemma pendingA_commitA [simp]: "pendingA (commitA w) = []"
  by (simp add: commitA_def)

lemma timers_commitA [simp]: "timers (commitA w) = timers w"
  by (simp add: commitA_def)

lemma host_downloadSvg_only_host:
  "host w = host w' \<Longrightarrow> host (snd (downloadSvg t w)) = host (snd (downloadSvg t w'))"
  by (simp add: exporter_defs split: option.splits completion.splits)

lemma handleDownload_host:
  "host wA = host wB \<Longrightarrow> host (snd (handleDownload t wA)) = host (snd (downloadSvg t wB))"
  by (simp add: exporter_defs handleDownload_def setErrorA_def rejectsA_iff
      split: option.splits completion.splits)

lemma timeout_callback_host:
  assumes "\<not> rejects t" and "host wA = host wB"
  shows "host (snd (timeout_callback t wA)) = host (snd (downloadSvg t wB))"
proof -
  from assms(1) have sw: "startsWith (trim t) (lit ''<svg'')" by (simp add: rejects_def)
  have "host (snd (timeout_callback t wA)) = host (snd (handleDownload t wA))"
    by (simp add: timeout_callback_def sw case_prod_unfold setDownloadOnPaste_def Let_def
        split: completion.splits)
  with handleDownload_host [OF assms(2)] show ?thesis by simp
qed


lemma stale_capture:
  assumes "timers wA = []" and "pendingA wA = []"
    and "startsWith (trim (svgCode wA)) (lit ''<svg'')"
  shows "attempts (host (snd (fire_timer
            (commitA (handleCodeChangeA t (useEffectA (commitA (handlePasteA wA))))))))
         = attempts (host wA) @ [svgCode wA]"
proof -
  let ?w1 = "useEffectA (commitA (handlePasteA wA))"
  have 1: "timers ?w1 = [svgCode wA]"
    using assms(1,2)
    by (simp add: useEffectA_def commitA_def handlePasteA_def setDownloadOnPaste_def)
  have 2: "timers (commitA (handleCodeChangeA t ?w1)) = [svgCode wA]"
    using 1 by (simp add: handleCodeChangeA_def setSvgCodeA_def setErrorA_def)
  have 3: "host (commitA (handleCodeChangeA t ?w1)) = host wA"
    by (simp add: handleCodeChangeA_def setSvgCodeA_def setErrorA_def useEffectA_def
        handlePasteA_def setDownloadOnPaste_def)
  have "attempts (host (snd (timeout_callback (svgCode wA) w))) = attempts (host w) @ [svgCode wA]"
    for w
    using assms(3)
    by (simp add: timeout_callback_def handleDownload_def exporter_defs setErrorA_def
        setDownloadOnPaste_def case_prod_unfold split: option.splits completion.splits)
  then show ?thesis using 2 3 by (simp add: fire_timer_def)
qed

lemma blobs_downloadSvg:
  "blobs (host (snd (downloadSvg t w)))
     = blobs (host w) @ (if rejects t then [] else [svg_blob t])"
  by (simp add: exporter_defs svg_blob_def split: option.splits completion.splits)

lemma clicks_downloadSvg:
  "clicks (host (snd (downloadSvg t w)))
     = clicks (host w) @ (if rejects t \<or> current (host w) = None then []
                          else [(Some (svg_blob t), lit ''icon.svg'')])"
  by (auto simp: exporter_defs svg_blob_def split: option.splits completion.splits)





section \<open>Facts about the deferred revision\<close>

lemmas deferred_defs = renderA_def commitA_def useEffectA_def handlePasteA_def
  handleCodeChangeA_def setSvgCodeA_def setErrorA_def setDownloadOnPaste_def
  fire_timer_def timeout_callback_def handleDownload_def runA_def insertText_def

lemma default_icon_differs: "default_icon \<noteq> lit ''<svg><rect/></svg>''" 
proof
  assume "default_icon = lit ''<svg><rect/></svg>''"
  then have "length default_icon = length (lit ''<svg><rect/></svg>'')" by simp
  then show False by (simp add: default_icon_def lit_def)
qed

lemma paste_step:
  assumes "t \<noteq> default_icon"
  shows "dispatchA (mountA h) (PasteA t 0 (length default_icon))
     = \<lparr>svgCode = t, error = [], host = h, downloadOnPaste = True, pendingA = [],
        timers = [default_icon, t]\<rparr>"
  using assms by (simp add: deferred_defs mountA_def Let_def)


lemma timeout_step:
  assumes c: "startsWith (trim c) (lit ''<svg'')"
    and a: "current (host w) = Some a" "\<not> click_throws a"
    and w: "timers w = c # rest" "pendingA w = []"
  shows "svgCode (dispatchA w Timeout) = svgCode w"
    and "timers (dispatchA w Timeout) = rest"
    and "pendingA (dispatchA w Timeout) = []"
    and "attempts (host (dispatchA w Timeout)) = attempts (host w) @ [c]"
    and "blobs (host (dispatchA w Timeout)) = blobs (host w) @ [svg_blob c]"
    and "\<exists>a'. current (host (dispatchA w Timeout)) = Some a' \<and> \<not> click_throws a'"
proof -
  from c have r: "\<not> rejectsA c" by (auto simp: rejectsA_def startsWith_def lit_svg)
  have fire: "fire_timer w = timeout_callback c (w\<lparr>timers := rest\<rparr>)"
    using w by (simp add: fire_timer_def)
  define w' where "w' = snd (timeout_callback c (w\<lparr>timers := rest\<rparr>))"
  have w': "svgCode w' = svgCode w" "timers w' = rest"
    "pendingA w' = [SetErrorA [], SetDownloadOnPaste False]"
    "attempts (host w') = attempts (host w) @ [c]"
    "blobs (host w') = blobs (host w) @ [svg_blob c]"
    "\<exists>a'. current (host w') = Some a' \<and> \<not> click_throws a'"
    unfolding w'_def using c r a w
    by (simp_all add: timeout_callback_def handleDownload_def setErrorA_def setDownloadOnPaste_def
        new_Blob_def createObjectURL_def click_def revokeObjectURL_def enter_def resolve_def
        svg_blob_def Let_def)
  have d: "dispatchA w Timeout = renderA w'" by (simp add: fire w'_def)
  show "svgCode (dispatchA w Timeout) = svgCode w"
    and "timers (dispatchA w Timeout) = rest"
    and "pendingA (dispatchA w Timeout) = []"
    and "attempts (host (dispatchA w Timeout)) = attempts (host w) @ [c]"
    and "blobs (host (dispatchA w Timeout)) = blobs (host w) @ [svg_blob c]"
    and "\<exists>a'. current (host (dispatchA w Timeout)) = Some a' \<and> \<not> click_throws a'"
    unfolding d using w'
    by (simp_all add: renderA_def commitA_def useEffectA_def Let_def)
qed

section \<open>The claims\<close>

text \<open>
  C1. Every paste event makes exactly one export attempt, and the text handed to the
  exporter is the clipboard text of the event, whatever the state holder contains and
  whether or not the queued update of the markup has been committed. Stated on
  \<open>handlePaste\<close> of App.jsx: the handler prevents the default action and is one call
  of \<open>downloadSvg\<close> on the clipboard text; the exporter is entered exactly once, with
  that text; the blob it builds and the save it triggers carry that text and the error
  it leaves depends on that text alone; what the paste does to the host is the same for
  every committed markup, error message and queue of updates; and the whole paste
  event, commit included, does to the host what one export of the clipboard text does.
\<close>

theorem paste_exports_clipboard_text:
  "handlePaste e w
     = (e\<lparr>defaultPrevented := True\<rparr>,
        downloadSvg (clipboardData e) (setSvgCode (clipboardData e) w))
   \<and> attempts (host (snd (snd (handlePaste e w)))) = attempts (host w) @ [clipboardData e]
   \<and> blobs (host (snd (snd (handlePaste e w))))
       = blobs (host w) @ (if rejects (clipboardData e) then [] else [svg_blob (clipboardData e)])
   \<and> clicks (host (snd (snd (handlePaste e w))))
       = clicks (host w) @ (if rejects (clipboardData e) \<or> current (host w) = None then []
                            else [(Some (svg_blob (clipboardData e)), lit ''icon.svg'')])
   \<and> error (commit (snd (snd (handlePaste e w))))
       = (if rejects (clipboardData e) then invalid_message else [])
   \<and> host (snd (snd (handlePaste e (w\<lparr>svgCode := s, error := m, pending := q\<rparr>))))
       = host (snd (snd (handlePaste e w)))
   \<and> host (dispatch w (Paste t a b)) = host (snd (downloadSvg t w))
   \<and> attempts (host (dispatch w (Paste t a b))) = attempts (host w) @ [t]"
proof -
  let ?t = "clipboardData e"
  have hs: "host (setSvgCode x w) = host w" for x w by (simp add: setSvgCode_def)
  have 0: "handlePaste e w
             = (e\<lparr>defaultPrevented := True\<rparr>,
                downloadSvg (clipboardData e) (setSvgCode (clipboardData e) w))"
    for e w
    by (simp add: handlePaste_def Let_def case_prod_unfold)
  have 1: "attempts (host (snd (snd (handlePaste e w)))) = attempts (host w) @ [?t]"
    unfolding 0 using attempts_downloadSvg [of ?t "setSvgCode ?t w"] by (simp add: hs)
  have 2: "blobs (host (snd (snd (handlePaste e w))))
       = blobs (host w) @ (if rejects ?t then [] else [svg_blob ?t])"
    unfolding 0 using blobs_downloadSvg [of ?t "setSvgCode ?t w"] by (simp add: hs)
  have 3: "clicks (host (snd (snd (handlePaste e w))))
       = clicks (host w) @ (if rejects ?t \<or> current (host w) = None then []
                            else [(Some (svg_blob ?t), lit ''icon.svg'')])"
    unfolding 0 using clicks_downloadSvg [of ?t "setSvgCode ?t w"] by (simp add: hs)
  have 4: "error (commit (snd (snd (handlePaste e w))))
       = (if rejects ?t then invalid_message else [])"
    unfolding 0 by (simp add: error_commit_downloadSvg)
  have 5: "host (snd (snd (handlePaste e (w\<lparr>svgCode := s, error := m, pending := q\<rparr>))))
       = host (snd (snd (handlePaste e w)))"
    unfolding 0 snd_conv by (rule host_downloadSvg_only_host) (simp add: hs)
  have 6: "host (dispatch w (Paste t a b)) = host (snd (downloadSvg t w))"
  proof -
    have "host (dispatch w (Paste t a b)) = host (snd (downloadSvg t (setSvgCode t w)))"
      by (simp add: 0 case_prod_unfold)
    also have "\<dots> = host (snd (downloadSvg t w))"
      by (rule host_downloadSvg_only_host) (simp add: hs)
    finally show ?thesis .
  qed
  have 7: "attempts (host (dispatch w (Paste t a b))) = attempts (host w) @ [t]"
    unfolding 6 by (rule attempts_downloadSvg)
  from 0 [of e w] 1 2 3 4 5 6 7 show ?thesis by blast
qed

theorem paste_exports_clipboard_text_witness:
  "\<not> rejects (lit ''<svg><rect/></svg>'')
   \<and> svgCode (mount (fresh_host (Some (fresh_anchor False)))) = default_icon
   \<and> attempts (host (snd (snd (handlePaste
        \<lparr>clipboardData = lit ''<svg><rect/></svg>'', defaultPrevented = False\<rparr>
        (mount (fresh_host (Some (fresh_anchor False)))))))) = [lit ''<svg><rect/></svg>'']
   \<and> blobs (host (snd (snd (handlePaste
        \<lparr>clipboardData = lit ''<svg><rect/></svg>'', defaultPrevented = False\<rparr>
        (mount (fresh_host (Some (fresh_anchor False))))))))
       = [svg_blob (lit ''<svg><rect/></svg>'')]
   \<and> clicks (host (snd (snd (handlePaste
        \<lparr>clipboardData = lit ''<svg><rect/></svg>'', defaultPrevented = False\<rparr>
        (mount (fresh_host (Some (fresh_anchor False))))))))
       = [(Some (svg_blob (lit ''<svg><rect/></svg>'')), lit ''icon.svg'')]
   \<and> error (commit (snd (snd (handlePaste
        \<lparr>clipboardData = lit ''<svg><rect/></svg>'', defaultPrevented = False\<rparr>
        (mount (fresh_host (Some (fresh_anchor False)))))))) = []"
proof -
  let ?t = "lit ''<svg><rect/></svg>''"
  let ?e = "\<lparr>clipboardData = ?t, defaultPrevented = False\<rparr>"
  let ?w = "mount (fresh_host (Some (fresh_anchor False)))"
  let ?r = "snd (snd (handlePaste ?e ?w))"
  note T = paste_exports_clipboard_text [of ?e ?w "[]" "[]" "[]" ?t 0 0]
  have a: "\<not> rejects ?t" by code_simp
  have w: "svgCode ?w = default_icon" "attempts (host ?w) = []" "blobs (host ?w) = []"
    "clicks (host ?w) = []" "current (host ?w) \<noteq> None"
    by (simp_all add: mount_def fresh_host_def)
  from T have "attempts (host ?r) = attempts (host ?w) @ [clipboardData ?e]" by blast
  then have 1: "attempts (host ?r) = [?t]" by (simp add: w)
  from T have "blobs (host ?r)
      = blobs (host ?w) @ (if rejects (clipboardData ?e) then [] else [svg_blob (clipboardData ?e)])"
    by blast
  then have 2: "blobs (host ?r) = [svg_blob ?t]" using a by (simp add: w)
  from T have "clicks (host ?r)
      = clicks (host ?w) @ (if rejects (clipboardData ?e) \<or> current (host ?w) = None then []
                            else [(Some (svg_blob (clipboardData ?e)), lit ''icon.svg'')])"
    by blast
  then have 3: "clicks (host ?r) = [(Some (svg_blob ?t), lit ''icon.svg'')]"
    using a w(5) by (simp add: w(4))
  from T have "error (commit ?r) = (if rejects (clipboardData ?e) then invalid_message else [])"
    by blast
  then have 4: "error (commit ?r) = []" using a by simp
  from a w(1) 1 2 3 4 show ?thesis by blast
qed

text \<open>
  C2. The validator accepts a text exactly when the trimmed text is non-empty and starts
  with \<open><svg\<close>, case-sensitively. This holds for the test of App.jsx and for the test
  of part\_000; the empty string, a whitespace-only string and \<open><SVG></SVG>\<close> are
  rejected, \<open><svg></svg>\<close> and \<open>  <svg/>  \<close> are accepted.
\<close>

theorem validator_iff_spec:
  "(\<not> rejects t) = isPlausibleSvg t \<and> (\<not> rejectsA t) = isPlausibleSvg t
   \<and> rejects [] \<and> rejects (lit ''   '') \<and> rejects (lit ''<SVG></SVG>'')
   \<and> \<not> rejects (lit ''<svg></svg>'') \<and> \<not> rejects (lit ''  <svg/>  '')"
proof -
  have a: "(\<not> rejects t) = isPlausibleSvg t" by (simp add: rejects_iff)
  have b: "(\<not> rejectsA t) = isPlausibleSvg t"
    by (auto simp: rejectsA_def isPlausibleSvg_def startsWith_prefix)
  have c: "rejects []" by (simp add: rejects_def)
  have d: "rejects (lit ''   '')" by code_simp
  have e: "rejects (lit ''<SVG></SVG>'')" by code_simp
  have f: "\<not> rejects (lit ''<svg></svg>'')" by code_simp
  have g: "\<not> rejects (lit ''  <svg/>  '')" by code_simp
  from a b c d e f g show ?thesis by blast
qed

theorem validator_iff_spec_witness:
  "\<not> rejects (lit ''  <svg/>  '') \<and> isPlausibleSvg (lit ''  <svg/>  '')
   \<and> trim (lit ''  <svg/>  '') = lit ''<svg/>''"
proof -
  have "trim (lit ''  <svg/>  '') = lit ''<svg/>''" by code_simp
  then show ?thesis using validator_iff_spec [of "lit ''  <svg/>  ''"] by blast
qed




text \<open>
  C4. For every rejected text the exporter only queues the error message and returns:
  no blob is built, no object URL is allocated, the store, the anchor and the log of
  clicks are as before, and after the commit the error message is the non-empty text
  of line 23.
\<close>

theorem rejected_export_no_effect:
  assumes "rejects t"
  shows "fst (downloadSvg t w) = Normal
         \<and> pending (snd (downloadSvg t w)) = pending w @ [SetError invalid_message]
         \<and> blobs (host (snd (downloadSvg t w))) = blobs (host w)
         \<and> store (host (snd (downloadSvg t w))) = store (host w)
         \<and> next_url (host (snd (downloadSvg t w))) = next_url (host w)
         \<and> clicks (host (snd (downloadSvg t w))) = clicks (host w)
         \<and> current (host (snd (downloadSvg t w))) = current (host w)
         \<and> error (commit (snd (downloadSvg t w))) = invalid_message
         \<and> invalid_message \<noteq> []"
proof -
  have eq: "downloadSvg t w =
           (Normal, w\<lparr>host := (host w)\<lparr>attempts := attempts (host w) @ [t]\<rparr>,
                       pending := pending w @ [SetError invalid_message]\<rparr>)"
    using assms by (simp add: downloadSvg_def Let_def setError_def enter_def)
  have msg: "invalid_message \<noteq> []" by (simp add: invalid_message_def lit_def)
  have err: "error (commit (snd (downloadSvg t w))) = invalid_message"
    using assms by (simp add: error_commit_downloadSvg)
  from eq msg err show ?thesis by simp
qed

theorem rejected_export_no_effect_witness:
  "rejects (lit ''not svg'')
   \<and> blobs (host (snd (downloadSvg (lit ''not svg'') (mount (fresh_host (Some (fresh_anchor False))))))) = []
   \<and> next_url (host (snd (downloadSvg (lit ''not svg'') (mount (fresh_host (Some (fresh_anchor False))))))) = 0
   \<and> clicks (host (snd (downloadSvg (lit ''not svg'') (mount (fresh_host (Some (fresh_anchor False))))))) = []
   \<and> error (commit (snd (downloadSvg (lit ''not svg'') (mount (fresh_host (Some (fresh_anchor False)))))))
       = invalid_message
   \<and> invalid_message \<noteq> []"
proof -
  let ?w = "mount (fresh_host (Some (fresh_anchor False)))"
  have h: "rejects (lit ''not svg'')" by code_simp
  have w: "blobs (host ?w) = [] \<and> next_url (host ?w) = 0 \<and> clicks (host ?w) = []"
    by (simp add: mount_def fresh_host_def)
  from h w rejected_export_no_effect [OF h, of ?w] show ?thesis
    by simp
qed

text \<open>
  C5, as amended. Whenever the exporter returns normally, every object URL allocated
  during the call has been revoked when it returns, with or without an anchor attached;
  for an accepted text exactly one URL was allocated.
\<close>

theorem handle_released_on_normal_return:
  assumes "fst (downloadSvg t w) = Normal"
  shows "(\<forall>u. next_url (host w) \<le> u \<and> u < next_url (host (snd (downloadSvg t w)))
              \<longrightarrow> store (host (snd (downloadSvg t w))) u = None)
         \<and> (\<not> rejects t \<longrightarrow> next_url (host (snd (downloadSvg t w))) = Suc (next_url (host w)))"
  using assms
  by (auto simp: exporter_defs split: option.splits completion.splits if_splits)

theorem handle_released_on_normal_return_witness:
  "fst (downloadSvg (lit ''<svg/>'') (mount (fresh_host (Some (fresh_anchor False))))) = Normal
   \<and> \<not> rejects (lit ''<svg/>'')
   \<and> next_url (host (snd (downloadSvg (lit ''<svg/>'') (mount (fresh_host (Some (fresh_anchor False))))))) = 1
   \<and> store (host (snd (downloadSvg (lit ''<svg/>'') (mount (fresh_host (Some (fresh_anchor False))))))) 0 = None"
proof -
  have h1: "\<not> rejects (lit ''<svg/>'')" by code_simp
  have h2: "fst (downloadSvg (lit ''<svg/>'') (mount (fresh_host (Some (fresh_anchor False))))) = Normal"
    using h1 by (simp add: exporter_defs mount_def fresh_host_def fresh_anchor_def)
  show ?thesis
    using h1 h2 handle_released_on_normal_return [OF h2]
    by (simp add: mount_def fresh_host_def)
qed

text \<open>
  C5 as stated fails: the release is a plain statement after the click, with no
  \<open>finally\<close>. When \<open>click\<close> raises, the call is left before
  \<open>revokeObjectURL\<close> and the allocated URL stays in the store.
\<close>

theorem handle_leaked_when_click_throws:
  "\<not> rejects (lit ''<svg/>'')
   \<and> fst (downloadSvg (lit ''<svg/>'') (mount (fresh_host (Some (fresh_anchor True))))) = Throw
   \<and> next_url (host (snd (downloadSvg (lit ''<svg/>'') (mount (fresh_host (Some (fresh_anchor True))))))) = 1
   \<and> store (host (snd (downloadSvg (lit ''<svg/>'') (mount (fresh_host (Some (fresh_anchor True))))))) 0
       = Some (svg_blob (lit ''<svg/>''))"
proof -
  have h1: "\<not> rejects (lit ''<svg/>'')" by code_simp
  show ?thesis
    using h1 by (simp add: exporter_defs mount_def fresh_host_def fresh_anchor_def svg_blob_def)
qed

text \<open>
  C6. In every state reached from the mounted component by user events, the error
  message is non-empty only if the last event was a failed export attempt (a paste of
  rejected text, or a click on the button while the markup is rejected). Every edit
  leaves it empty, whatever the new text, and so does every export of an accepted text.
\<close>

theorem error_only_after_failed_export:
  "(error (run evs (mount h)) \<noteq> [] \<longrightarrow>
      evs \<noteq> [] \<and> failed_export (run (butlast evs) (mount h)) (last evs))
   \<and> error (dispatch w (Change v)) = []
   \<and> (\<not> rejects t \<longrightarrow> error (commit (snd (downloadSvg t w))) = [])"
proof -
  have 1: "error (run evs (mount h)) \<noteq> [] \<longrightarrow>
      evs \<noteq> [] \<and> failed_export (run (butlast evs) (mount h)) (last evs)"
  proof (cases evs rule: rev_cases)
    case Nil
    then show ?thesis by (simp add: run_def mount_def)
  next
    case (snoc es e)
    then show ?thesis by (simp add: run_snoc error_dispatch)
  qed
  have 2: "error (dispatch w (Change v)) = []" using error_dispatch [of w "Change v"] by simp
  have 3: "\<not> rejects t \<longrightarrow> error (commit (snd (downloadSvg t w))) = []"
    by (simp add: error_commit_downloadSvg)
  from 1 2 3 show ?thesis by blast
qed

theorem error_only_after_failed_export_witness:
  "error (run [Paste (lit ''not svg'') 0 0] (mount (fresh_host (Some (fresh_anchor False))))) \<noteq> []
   \<and> failed_export (run [] (mount (fresh_host (Some (fresh_anchor False)))))
        (Paste (lit ''not svg'') 0 0)
   \<and> error (run [Paste (lit ''not svg'') 0 0, Change (lit ''still not svg'')]
        (mount (fresh_host (Some (fresh_anchor False))))) = []
   \<and> \<not> rejects (lit ''<svg/>'')
   \<and> error (commit (snd (downloadSvg (lit ''<svg/>'')
        (run [Paste (lit ''not svg'') 0 0] (mount (fresh_host (Some (fresh_anchor False)))))))) = []"
proof -
  let ?w = "mount (fresh_host (Some (fresh_anchor False)))"
  let ?p = "Paste (lit ''not svg'') 0 0"
  let ?c = "Change (lit ''still not svg'')"
  note T = error_only_after_failed_export [of "[?p]" "fresh_host (Some (fresh_anchor False))"
      "run [?p] ?w" "lit ''still not svg''" "lit ''<svg/>''"]
  have r: "rejects (lit ''not svg'')" by code_simp
  have a: "\<not> rejects (lit ''<svg/>'')" by code_simp
  have m: "invalid_message \<noteq> []" by (simp add: invalid_message_def lit_def)
  have s1: "run [?p] ?w = dispatch ?w ?p" by (simp add: run_def)
  have h: "error (run [?p] ?w) \<noteq> []"
    unfolding s1 error_dispatch using r m by simp
  from T h have f: "failed_export (run [] ?w) ?p" by simp
  have s2: "run [?p, ?c] ?w = dispatch (run [?p] ?w) ?c" by (simp add: run_def)
  from T have e2: "error (run [?p, ?c] ?w) = []" unfolding s2 by blast
  from T a have e3: "error (commit (snd (downloadSvg (lit ''<svg/>'') (run [?p] ?w)))) = []"
    by blast
  from h f e2 a e3 show ?thesis by blast
qed

text \<open>
  C7. An export attempt, successful or not, leaves the markup as it was, in the
  rendered state and after the next commit, so the preview before and after it is the
  same. The preview is the markup itself: no test stands between the state and the
  inner HTML of the preview.
\<close>

theorem export_preserves_markup:
  "svgCode (snd (downloadSvg t w)) = svgCode w
   \<and> svgCode (commit (snd (downloadSvg t w))) = svgCode (commit w)
   \<and> preview_html (render (commit (snd (downloadSvg t w)))) = preview_html (render (commit w))
   \<and> preview_html (render (dispatch w Click)) = preview_html (render (commit w))
   \<and> preview_html (render (w\<lparr>svgCode := m\<rparr>)) = m"
  by (simp add: svgCode_downloadSvg svgCode_commit_downloadSvg render_def handleManualDownload_def)

theorem export_preserves_markup_witness:
  "rejects (lit ''not svg'')
   \<and> preview_html (render (commit (snd (downloadSvg (lit ''not svg'')
        (mount (fresh_host (Some (fresh_anchor False)))))))) = default_icon
   \<and> preview_html (render ((mount (fresh_host None))\<lparr>svgCode := lit ''<b>not svg''\<rparr>))
       = lit ''<b>not svg''"
proof -
  have r: "rejects (lit ''not svg'')" by code_simp
  have c: "preview_html (render (commit (mount (fresh_host (Some (fresh_anchor False)))))) = default_icon"
    by (simp add: render_def commit_def mount_def)
  show ?thesis
    using r c export_preserves_markup [of "lit ''not svg''"
        "mount (fresh_host (Some (fresh_anchor False)))" "lit ''<b>not svg''"]
      export_preserves_markup [of "lit ''not svg''" "mount (fresh_host None)" "lit ''<b>not svg''"]
    by simp
qed

text \<open>
  C8. The markup starts as the default sample icon. After an edit it is the new value
  of the textarea, and after a paste it is exactly the clipboard text, wherever the
  selection was: the paste handler prevents the default insertion.
\<close>

theorem markup_replaced_wholesale:
  "svgCode (mount h) = default_icon
   \<and> svgCode (dispatch w (Change v)) = v
   \<and> svgCode (dispatch w (Paste t a b)) = t"
proof -
  have 1: "svgCode (mount h) = default_icon" by (simp add: mount_def)
  have 2: "svgCode (dispatch w (Change v)) = v"
    by (simp add: handleCodeChange_def setSvgCode_def setError_def commit_def)
  have "svgCode (commit (snd (downloadSvg t (setSvgCode t w)))) = svgCode (commit (setSvgCode t w))"
    by (rule svgCode_commit_downloadSvg)
  also have "\<dots> = t" by (simp add: setSvgCode_def commit_def)
  finally have 3: "svgCode (dispatch w (Paste t a b)) = t"
    by (simp add: handlePaste_def Let_def case_prod_unfold)
  from 1 2 3 show ?thesis by blast
qed

theorem markup_replaced_wholesale_witness:
  "svgCode (dispatch (mount (fresh_host (Some (fresh_anchor False)))) (Paste (lit ''<svg/>'') 3 5))
     = lit ''<svg/>''
   \<and> svgCode (dispatch (mount (fresh_host (Some (fresh_anchor False)))) (Change (lit ''abc'')))
     = lit ''abc''
   \<and> \<not> rejects default_icon"
proof -
  have d: "\<not> rejects default_icon" by code_simp
  show ?thesis
    using d markup_replaced_wholesale [of "fresh_host None"
        "mount (fresh_host (Some (fresh_anchor False)))" "lit ''abc''" "lit ''<svg/>''" 3 5]
      markup_replaced_wholesale [of "fresh_host None"
        "mount (fresh_host (Some (fresh_anchor False)))" "lit ''abc''" "lit ''abc''" 3 5]
    by simp
qed

text \<open>
  C9. The deferred revision does not do what the claim says. Select the whole default
  icon and paste \<open><svg><rect/></svg>\<close>. The paste handler sets the flag; the render
  that follows runs the effect, which schedules a callback holding the markup of that
  render, the default icon. Then the host inserts the text, the change is committed, and
  the effect schedules a second callback holding the pasted text. The pasted text is in
  the state holder before either callback runs, yet the first callback exports the
  default icon and the second the pasted text: two exports, the first stale, where the
  direct variant makes one export of the pasted text.
\<close>

theorem deferred_exports_stale_markup:
  "svgCode (runA [PasteA (lit ''<svg><rect/></svg>'') 0 (length default_icon)]
      (mountA (fresh_host (Some (fresh_anchor False))))) = lit ''<svg><rect/></svg>''
   \<and> timers (runA [PasteA (lit ''<svg><rect/></svg>'') 0 (length default_icon)]
      (mountA (fresh_host (Some (fresh_anchor False))))) = [default_icon, lit ''<svg><rect/></svg>'']
   \<and> attempts (host (runA [PasteA (lit ''<svg><rect/></svg>'') 0 (length default_icon), Timeout, Timeout]
      (mountA (fresh_host (Some (fresh_anchor False))))))
       = [default_icon, lit ''<svg><rect/></svg>'']
   \<and> blobs (host (runA [PasteA (lit ''<svg><rect/></svg>'') 0 (length default_icon), Timeout, Timeout]
      (mountA (fresh_host (Some (fresh_anchor False))))))
       = [svg_blob default_icon, svg_blob (lit ''<svg><rect/></svg>'')]
   \<and> attempts (host (dispatch (mount (fresh_host (Some (fresh_anchor False))))
        (Paste (lit ''<svg><rect/></svg>'') 0 (length default_icon))))
       = [lit ''<svg><rect/></svg>'']
   \<and> blobs (host (dispatch (mount (fresh_host (Some (fresh_anchor False))))
        (Paste (lit ''<svg><rect/></svg>'') 0 (length default_icon))))
       = [svg_blob (lit ''<svg><rect/></svg>'')]"
proof -
  let ?t = "lit ''<svg><rect/></svg>''"
  let ?h = "fresh_host (Some (fresh_anchor False))"
  let ?p = "PasteA ?t 0 (length default_icon)"
  have "\<not> rejects default_icon" by code_simp
  then have d: "startsWith (trim default_icon) (lit ''<svg'')" by (simp add: rejects_def)
  have t1: "\<not> rejects ?t" by code_simp
  then have t: "startsWith (trim ?t) (lit ''<svg'')" by (simp add: rejects_def)
  define w2 where "w2 = dispatchA (mountA ?h) ?p"
  have w2: "svgCode w2 = ?t" "timers w2 = [default_icon, ?t]" "pendingA w2 = []"
    "host w2 = ?h"
    unfolding w2_def paste_step [OF default_icon_differs [symmetric]] by simp_all
  have a2: "current (host w2) = Some (fresh_anchor False)" "\<not> click_throws (fresh_anchor False)"
    by (simp_all add: w2 fresh_host_def fresh_anchor_def)
  have h2: "attempts (host w2) = []" "blobs (host w2) = []"
    by (simp_all add: w2 fresh_host_def)
  define w3 where "w3 = dispatchA w2 Timeout"
  note s3 = timeout_step [OF d a2 w2(2,3), folded w3_def]
  from s3(6) obtain a3 where a3: "current (host w3) = Some a3" "\<not> click_throws a3" by blast
  define w4 where "w4 = dispatchA w3 Timeout"
  note s4 = timeout_step [OF t a3 s3(2,3), folded w4_def]
  have r1: "runA [?p] (mountA ?h) = w2" by (simp add: runA_def w2_def)
  have r2: "runA [?p, Timeout, Timeout] (mountA ?h) = w4"
    by (simp add: runA_def w2_def w3_def w4_def)
  have a4: "attempts (host w4) = [default_icon, ?t]"
    by (simp only: s4(4) s3(4) h2 append_Nil append_Cons)
  have b4: "blobs (host w4) = [svg_blob default_icon, svg_blob ?t]"
    by (simp only: s4(5) s3(5) h2 append_Nil append_Cons)
  have b: "attempts (host (dispatch (mount ?h) (Paste ?t 0 (length default_icon)))) = [?t]"
    "blobs (host (dispatch (mount ?h) (Paste ?t 0 (length default_icon)))) = [svg_blob ?t]"
    using t1
    by (simp_all add: handlePaste_def Let_def case_prod_unfold attempts_downloadSvg blobs_downloadSvg
        setSvgCode_def mount_def fresh_host_def)
  from w2(1,2) a4 b4 b show ?thesis unfolding r1 r2 by blast
qed

text \<open>
  C10. With no anchor attached, the exporter called with accepted text still takes the
  success path: it returns normally, clears the error message, builds the blob,
  allocates one object URL and revokes it, and calls no \<open>click\<close>.
\<close>

theorem absent_anchor_success_without_save:
  assumes "\<not> rejects t" and "current (host w) = None"
  shows "fst (downloadSvg t w) = Normal
         \<and> error (commit (snd (downloadSvg t w))) = []
         \<and> blobs (host (snd (downloadSvg t w))) = blobs (host w) @ [svg_blob t]
         \<and> next_url (host (snd (downloadSvg t w))) = Suc (next_url (host w))
         \<and> store (host (snd (downloadSvg t w))) (next_url (host w)) = None
         \<and> clicks (host (snd (downloadSvg t w))) = clicks (host w)"
proof -
  have e: "error (commit (snd (downloadSvg t w))) = []"
    using assms by (simp add: error_commit_downloadSvg)
  have r: "downloadSvg t w =
     (Normal, w\<lparr>host := (host w)\<lparr>attempts := attempts (host w) @ [t],
                                  blobs := blobs (host w) @ [svg_blob t],
                                  store := (store (host w))(next_url (host w) := None),
                                  next_url := Suc (next_url (host w))\<rparr>,
                 pending := pending w @ [SetError []]\<rparr>)"
    using assms by (simp add: exporter_defs svg_blob_def)
  from e r show ?thesis by simp
qed

theorem absent_anchor_success_without_save_witness:
  "\<not> rejects (lit ''<svg/>'')
   \<and> current (host (mount (fresh_host None))) = None
   \<and> fst (downloadSvg (lit ''<svg/>'') (mount (fresh_host None))) = Normal
   \<and> next_url (host (snd (downloadSvg (lit ''<svg/>'') (mount (fresh_host None))))) = 1
   \<and> store (host (snd (downloadSvg (lit ''<svg/>'') (mount (fresh_host None))))) 0 = None
   \<and> clicks (host (snd (downloadSvg (lit ''<svg/>'') (mount (fresh_host None))))) = []"
proof -
  have h1: "\<not> rejects (lit ''<svg/>'')" by code_simp
  have h2: "current (host (mount (fresh_host None))) = None"
    by (simp add: mount_def fresh_host_def)
  show ?thesis
    using h1 h2 absent_anchor_success_without_save [OF h1 h2]
    by (simp add: mount_def fresh_host_def)
qed

end
